theory Spec2Isabelle
  imports Main "HOL-Library.Sublist"
begin

section \<open>Data model\<close>

text \<open>
  A message is the dict \<^verbatim>\<open>{"sender", "text", "timestamp"}\<close> that
  \<^verbatim>\<open>add_message_to_session\<close> appends; a chat session is the dict
  \<^verbatim>\<open>{"id", "name", "messages", "created_at"}\<close> that \<^verbatim>\<open>handle_new_chat\<close> builds.
  The keys \<^verbatim>\<open>id\<close>, \<^verbatim>\<open>name\<close> and \<^verbatim>\<open>text\<close> are prefixed, since they clash with
  names of the logic.
\<close>

record message =
  sender :: string
  msg_text :: string
  timestamp :: string

record chat_session =
  sess_id :: int
  sess_name :: string
  messages :: "message list"
  created_at :: string

text \<open>
  The attributes of \<^verbatim>\<open>ChatApp\<close> that the session logic reads and writes, together with
  the files of the working directory. \<^verbatim>\<open>current_model\<close> is the value of the dropdown
  (\<^verbatim>\<open>None\<close> when nothing is selected), \<^verbatim>\<open>model_options\<close> the keys of its options.
  The content of a file is of an abstract type \<open>'doc\<close>: the text that \<^verbatim>\<open>json.dump\<close>
  writes. The codec of the Python library is a parameter of every operation that saves
  or loads.
\<close>

record 'doc app =
  chat_sessions :: "chat_session list"
  current_chat_id :: "int option"
  current_model :: "string option"
  model_options :: "string list"
  chat_input :: string
  files :: "string \<rightharpoonup> 'doc"

datatype py_error = TypeError | KeyError | JSONDecodeError | UnicodeDecodeError

section \<open>Python's \<^verbatim>\<open>str\<close> of a number\<close>

definition digit_char :: "nat \<Rightarrow> char" where
  "digit_char d = char_of (48 + d)"

fun str_nat :: "nat \<Rightarrow> string" where
  "str_nat n = (if n < 10 then [digit_char n] else str_nat (n div 10) @ [digit_char (n mod 10)])"

definition str_int :: "int \<Rightarrow> string" where
  "str_int i = (if i < 0 then CHR ''-'' # str_nat (nat (- i)) else str_nat (nat i))"

section \<open>Persistence\<close>

text \<open>
  \<^verbatim>\<open>save_chat_history\<close> opens \<^verbatim>\<open>chat_history.json\<close> in mode \<^verbatim>\<open>"w"\<close> and dumps the
  whole list; \<^verbatim>\<open>load_chat_history\<close> reads the file when it exists and leaves the list
  as it is otherwise. A document that \<^verbatim>\<open>json.load\<close> rejects raises.
\<close>

definition history_path :: string where
  "history_path = ''chat_history.json''"

definition save_chat_history :: "(chat_session list \<Rightarrow> 'doc) \<Rightarrow> 'doc app \<Rightarrow> 'doc app" where
  "save_chat_history json_dump a =
     a\<lparr>files := (files a)(history_path \<mapsto> json_dump (chat_sessions a))\<rparr>"


section \<open>Session store\<close>

text \<open>
  \<^verbatim>\<open>handle_new_chat\<close>: the id is \<^verbatim>\<open>len(chat_sessions) + 1\<close>, the name
  \<^verbatim>\<open>f"Chat {len(chat_sessions) + 1}"\<close>; the session is appended, made current, and the
  history is saved. The argument \<open>now\<close> is \<^verbatim>\<open>datetime.datetime.now().isoformat()\<close>.
\<close>

definition handle_new_chat ::
  "(chat_session list \<Rightarrow> 'doc) \<Rightarrow> string \<Rightarrow> 'doc app \<Rightarrow> 'doc app" where
  "handle_new_chat json_dump now a =
     (let n = int (length (chat_sessions a)) + 1;
          new_chat = \<lparr>sess_id = n, sess_name = ''Chat '' @ str_int n,
                      messages = [], created_at = now\<rparr>;
          a1 = a\<lparr>chat_sessions := chat_sessions a @ [new_chat]\<rparr>;
          a2 = a1\<lparr>current_chat_id := Some (sess_id new_chat)\<rparr>
      in save_chat_history json_dump a2)"

text \<open>\<^verbatim>\<open>load_chat\<close> makes the given id current, whether a session has it or not.\<close>

definition load_chat :: "int \<Rightarrow> 'doc app \<Rightarrow> 'doc app" where
  "load_chat chat_id a = a\<lparr>current_chat_id := Some chat_id\<rparr>"

text \<open>
  \<^verbatim>\<open>delete_chat\<close>: the list comprehension keeps the sessions whose id differs; the
  current id is reset when it is the deleted one; the history is saved.
\<close>

definition delete_chat :: "(chat_session list \<Rightarrow> 'doc) \<Rightarrow> int \<Rightarrow> 'doc app \<Rightarrow> 'doc app" where
  "delete_chat json_dump chat_id a =
     (let a1 = a\<lparr>chat_sessions := filter (\<lambda>s. sess_id s \<noteq> chat_id) (chat_sessions a)\<rparr>;
          a2 = (if current_chat_id a1 = Some chat_id then a1\<lparr>current_chat_id := None\<rparr> else a1)
      in save_chat_history json_dump a2)"

text \<open>
  \<^verbatim>\<open>add_message_to_session\<close>: \<^verbatim>\<open>next(...)\<close> takes the first session whose id equals
  the current id and the message is appended to its list in place; with no such session
  nothing happens. The function has no \<^verbatim>\<open>raise\<close> and does not save.
\<close>

fun append_to_first :: "int option \<Rightarrow> message \<Rightarrow> chat_session list \<Rightarrow> chat_session list" where
  "append_to_first cid m [] = []"
| "append_to_first cid m (s # ss) =
     (if Some (sess_id s) = cid then s\<lparr>messages := messages s @ [m]\<rparr> # ss
      else s # append_to_first cid m ss)"

definition add_message_to_session :: "string \<Rightarrow> string \<Rightarrow> string \<Rightarrow> 'doc app \<Rightarrow> 'doc app" where
  "add_message_to_session sndr txt now a =
     a\<lparr>chat_sessions :=
         append_to_first (current_chat_id a)
           \<lparr>sender = sndr, msg_text = txt, timestamp = now\<rparr> (chat_sessions a)\<rparr>"

text \<open>The empty application state of \<^verbatim>\<open>__init__\<close> before any history is loaded.\<close>

definition init_app :: "'doc app" where
  "init_app = \<lparr>chat_sessions = [], current_chat_id = None, current_model = None,
               model_options = [], chat_input = [], files = Map.empty\<rparr>"

section \<open>The response stream\<close>

text \<open>
  What \<^verbatim>\<open>json.loads\<close> returns: a Python object built from \<^verbatim>\<open>None\<close>, booleans,
  numbers, strings, lists and dicts. A dict is the list of its items in insertion
  order (the keys of a dict are distinct). Numbers are integers.
\<close>

datatype json =
  JNull | JBool bool | JNumber int | JString string
  | JArray "json list" | JObject "(string \<times> json) list"

text \<open>
  One item of \<^verbatim>\<open>response.iter_lines()\<close>, classified by what the first statements of
  the loop body do with it: an empty line fails the test \<^verbatim>\<open>if line\<close>; \<^verbatim>\<open>decode\<close>
  raises on bytes that are not UTF-8; \<^verbatim>\<open>json.loads\<close> raises on text that is not JSON;
  otherwise there is a chunk.
\<close>

datatype line = Blank | BadBytes | BadJson | Json json

text \<open>The operators of Python that the loop applies to a chunk.\<close>

fun py_in :: "string \<Rightarrow> json \<Rightarrow> py_error + bool" where
  "py_in k (JObject kvs) = Inr (k \<in> set (map fst kvs))"
| "py_in k (JArray xs) = Inr (JString k \<in> set xs)"
| "py_in k (JString s) = Inr (sublist k s)"
| "py_in k JNull = Inl TypeError"
| "py_in k (JBool b) = Inl TypeError"
| "py_in k (JNumber n) = Inl TypeError"

fun py_getitem :: "json \<Rightarrow> string \<Rightarrow> py_error + json" where
  "py_getitem (JObject kvs) k = (case map_of kvs k of None \<Rightarrow> Inl KeyError | Some v \<Rightarrow> Inr v)"
| "py_getitem (JArray xs) k = Inl TypeError"
| "py_getitem (JString s) k = Inl TypeError"
| "py_getitem JNull k = Inl TypeError"
| "py_getitem (JBool b) k = Inl TypeError"
| "py_getitem (JNumber n) k = Inl TypeError"

text \<open>\<^verbatim>\<open>for char in v\<close>: the characters of a string, the elements of a list, the keys of a dict.\<close>

fun py_iter :: "json \<Rightarrow> py_error + json list" where
  "py_iter (JString s) = Inr (map (\<lambda>c. JString [c]) s)"
| "py_iter (JArray xs) = Inr xs"
| "py_iter (JObject kvs) = Inr (map (\<lambda>kv. JString (fst kv)) kvs)"
| "py_iter JNull = Inl TypeError"
| "py_iter (JBool b) = Inl TypeError"
| "py_iter (JNumber n) = Inl TypeError"

text \<open>\<^verbatim>\<open>''.join(items)\<close> raises unless every item is a string.\<close>

fun py_join :: "json list \<Rightarrow> py_error + string" where
  "py_join [] = Inr []"
| "py_join (JString s # xs) = (case py_join xs of Inl e \<Rightarrow> Inl e | Inr r \<Rightarrow> Inr (s @ r))"
| "py_join (JNull # xs) = Inl TypeError"
| "py_join (JBool b # xs) = Inl TypeError"
| "py_join (JNumber n # xs) = Inl TypeError"
| "py_join (JArray ys # xs) = Inl TypeError"
| "py_join (JObject kvs # xs) = Inl TypeError"

text \<open>\<^verbatim>\<open>text += v\<close> with \<^verbatim>\<open>text\<close> a string raises unless \<^verbatim>\<open>v\<close> is a string.\<close>

fun py_str_add :: "string \<Rightarrow> json \<Rightarrow> py_error + string" where
  "py_str_add t (JString s) = Inr (t @ s)"
| "py_str_add t JNull = Inl TypeError"
| "py_str_add t (JBool b) = Inl TypeError"
| "py_str_add t (JNumber n) = Inl TypeError"
| "py_str_add t (JArray ys) = Inl TypeError"
| "py_str_add t (JObject kvs) = Inl TypeError"

text \<open>
  How the loop is left early: the branch \<^verbatim>\<open>elif "error" in chunk\<close> schedules
  \<^verbatim>\<open>show_error(f"AI Error: {chunk['error']}")\<close> and returns; an exception handler schedules
  \<^verbatim>\<open>show_error(f"Processing Error: ...")\<close> and returns.
\<close>

datatype stop = AIError json | ProcessingError py_error

datatype 'acc step = Continue 'acc | Return stop

datatype 'acc outcome = Exhausted 'acc | Stopped stop

text \<open>
  The body of the loop in \<^verbatim>\<open>Local-AI-Chat.py\<close>. The \<^verbatim>\<open>try\<close> encloses the whole
  \<^verbatim>\<open>for\<close> and has the single handler \<^verbatim>\<open>except Exception\<close>, so every exception of the
  body, \<^verbatim>\<open>JSONDecodeError\<close> included, ends the loop.
\<close>

fun process_line :: "line \<Rightarrow> json list \<Rightarrow> (json list) step" where
  "process_line Blank full_response = Continue full_response"
| "process_line BadBytes full_response = Return (ProcessingError UnicodeDecodeError)"
| "process_line BadJson full_response = Return (ProcessingError JSONDecodeError)"
| "process_line (Json chunk) full_response =
     (case py_in ''response'' chunk of
        Inl e \<Rightarrow> Return (ProcessingError e)
      | Inr True \<Rightarrow>
          (case py_getitem chunk ''response'' of
             Inl e \<Rightarrow> Return (ProcessingError e)
           | Inr v \<Rightarrow> (case py_iter v of
                         Inl e \<Rightarrow> Return (ProcessingError e)
                       | Inr cs \<Rightarrow> Continue (full_response @ cs)))
      | Inr False \<Rightarrow>
          (case py_in ''error'' chunk of
             Inl e \<Rightarrow> Return (ProcessingError e)
           | Inr True \<Rightarrow> Return (AIError chunk)
           | Inr False \<Rightarrow> Continue full_response))"

fun iter_lines :: "line list \<Rightarrow> json list \<Rightarrow> (json list) outcome" where
  "iter_lines [] full_response = Exhausted full_response"
| "iter_lines (l # ls) full_response =
     (case process_line l full_response of
        Continue full_response' \<Rightarrow> iter_lines ls full_response'
      | Return r \<Rightarrow> Stopped r)"

text \<open>
  The body of the loop in the copy (\<^verbatim>\<open>Local-AI-Chat copy.py\<close>). The \<^verbatim>\<open>try\<close> is
  inside the loop; \<^verbatim>\<open>except json.JSONDecodeError: continue\<close> comes first, every other
  exception returns.
\<close>

fun process_line_copy :: "line \<Rightarrow> string \<Rightarrow> string step" where
  "process_line_copy Blank txt = Continue txt"
| "process_line_copy BadBytes txt = Return (ProcessingError UnicodeDecodeError)"
| "process_line_copy BadJson txt = Continue txt"
| "process_line_copy (Json chunk) txt =
     (case py_in ''response'' chunk of
        Inl e \<Rightarrow> Return (ProcessingError e)
      | Inr True \<Rightarrow>
          (case py_getitem chunk ''response'' of
             Inl e \<Rightarrow> Return (ProcessingError e)
           | Inr v \<Rightarrow> (case py_str_add txt v of
                         Inl e \<Rightarrow> Return (ProcessingError e)
                       | Inr txt' \<Rightarrow> Continue txt'))
      | Inr False \<Rightarrow>
          (case py_in ''error'' chunk of
             Inl e \<Rightarrow> Return (ProcessingError e)
           | Inr True \<Rightarrow> Return (AIError chunk)
           | Inr False \<Rightarrow> Continue txt))"

fun iter_lines_copy :: "line list \<Rightarrow> string \<Rightarrow> string outcome" where
  "iter_lines_copy [] txt = Exhausted txt"
| "iter_lines_copy (l # ls) txt =
     (case process_line_copy l txt of
        Continue txt' \<Rightarrow> iter_lines_copy ls txt'
      | Return r \<Rightarrow> Stopped r)"

text \<open>
  The request: \<^verbatim>\<open>requests.post\<close> raises, or returns a status code and the lines of
  the body. The function \<^verbatim>\<open>process\<close> that the thread runs returns before the request
  when no model is selected, after it when the status is not 200, and runs the loop
  otherwise.
\<close>

datatype http = RequestException | Response nat "line list"

datatype 'acc result = NoModelSelected | RequestError | APIError nat | Stream "'acc outcome"

definition process :: "string option \<Rightarrow> http \<Rightarrow> (json list) result" where
  "process selected_model h =
     (if selected_model = None \<or> selected_model = Some [] then NoModelSelected
      else case h of
             RequestException \<Rightarrow> RequestError
           | Response status_code ls \<Rightarrow>
               if status_code \<noteq> 200 then APIError status_code
               else Stream (iter_lines ls []))"

definition process_copy :: "string option \<Rightarrow> http \<Rightarrow> string result" where
  "process_copy selected_model h =
     (if selected_model = None \<or> selected_model = Some [] then NoModelSelected
      else case h of
             RequestException \<Rightarrow> RequestError
           | Response status_code ls \<Rightarrow>
               if status_code \<noteq> 200 then APIError status_code
               else Stream (iter_lines_copy ls []))"

text \<open>
  The task \<^verbatim>\<open>finalize\<close> that \<^verbatim>\<open>Local-AI-Chat.py\<close> schedules after the loop:
  \<^verbatim>\<open>add_message_to_session("ai", ''.join(full_response))\<close>. When the join raises, the
  task ends without a message. The copy calls
  \<^verbatim>\<open>add_message_to_session("ai", text)\<close> itself.
\<close>

definition finalize :: "string \<Rightarrow> json list \<Rightarrow> 'doc app \<Rightarrow> 'doc app" where
  "finalize now full_response a =
     (case py_join full_response of
        Inl e \<Rightarrow> a
      | Inr txt \<Rightarrow> add_message_to_session ''ai'' txt now a)"

text \<open>
  A request that runs to its end with no other event in between: the result of the
  thread and the application state after it.
\<close>

definition process_ai_response :: "string \<Rightarrow> http \<Rightarrow> 'doc app \<Rightarrow> (json list) result \<times> 'doc app" where
  "process_ai_response now h a =
     (let r = process (current_model a) h
      in (r, case r of Stream (Exhausted full_response) \<Rightarrow> finalize now full_response a | _ \<Rightarrow> a))"

definition process_ai_response_copy :: "string \<Rightarrow> http \<Rightarrow> 'doc app \<Rightarrow> string result \<times> 'doc app" where
  "process_ai_response_copy now h a =
     (let r = process_copy (current_model a) h
      in (r, case r of Stream (Exhausted txt) \<Rightarrow> add_message_to_session ''ai'' txt now a | _ \<Rightarrow> a))"

section \<open>Sending a message\<close>

text \<open>
  \<^verbatim>\<open>str.strip()\<close> removes the leading and trailing whitespace; among the characters
  below 256 the whitespace of Python is 9 to 13, 28 to 32, 133 and 160.
\<close>

definition is_space :: "char \<Rightarrow> bool" where
  "is_space c =
     (let n = (of_char c :: nat)
      in (9 \<le> n \<and> n \<le> 13) \<or> (28 \<le> n \<and> n \<le> 32) \<or> n = 133 \<or> n = 160)"

definition strip :: "string \<Rightarrow> string" where
  "strip s = rev (dropWhile is_space (rev (dropWhile is_space s)))"

text \<open>
  \<^verbatim>\<open>validate_send_conditions\<close>: a model is selected, it is among the options of the
  dropdown, and the input is not blank. Nothing else is tested.
\<close>

definition validate_send_conditions :: "'doc app \<Rightarrow> bool" where
  "validate_send_conditions a =
     (case current_model a of
        None \<Rightarrow> False
      | Some m \<Rightarrow>
          if m = [] then False
          else if \<not> (\<exists>opt \<in> set (model_options a). opt = m) then False
          else if strip (chat_input a) = [] then False
          else True)"

text \<open>
  The threads that \<^verbatim>\<open>process_ai_response\<close> has started and that have not returned,
  each with its prompt and its own list \<^verbatim>\<open>full_response\<close>, oldest first.
\<close>

record thread =
  thr_prompt :: string
  thr_full_response :: "json list"

record 'doc runtime =
  rt_app :: "'doc app"
  threads :: "thread list"

text \<open>
  \<^verbatim>\<open>handle_send_message\<close> returns at once when the validation fails. Otherwise the
  stripped input is added to the current session as the user's message, a new thread
  is started for it, and the input field is emptied.
\<close>

definition handle_send_message :: "string \<Rightarrow> 'doc runtime \<Rightarrow> 'doc runtime" where
  "handle_send_message now rt =
     (if \<not> validate_send_conditions (rt_app rt) then rt
      else
        let prompt = strip (chat_input (rt_app rt));
            a1 = add_message_to_session ''user'' prompt now (rt_app rt)
        in \<lparr>rt_app = a1\<lparr>chat_input := []\<rparr>,
            threads = threads rt @ [\<lparr>thr_prompt = prompt, thr_full_response = []\<rparr>]\<rparr>)"

text \<open>
  Thread \<open>i\<close> reads one more line of its response: it goes on with the longer
  \<^verbatim>\<open>full_response\<close>, or it returns and is gone. At the end of its response it schedules
  \<^verbatim>\<open>finalize\<close> and is gone. A thread whose request raises or has a status other than
  200 returns before the loop (the event \<open>RequestFails\<close> below).
\<close>

definition remove_nth :: "nat \<Rightarrow> 'a list \<Rightarrow> 'a list" where
  "remove_nth i xs = take i xs @ drop (Suc i) xs"

definition thread_receive :: "nat \<Rightarrow> line \<Rightarrow> 'doc runtime \<Rightarrow> 'doc runtime" where
  "thread_receive i l rt =
     (if i < length (threads rt) then
        (case process_line l (thr_full_response (threads rt ! i)) of
           Continue full_response' \<Rightarrow>
             rt\<lparr>threads := (threads rt)[i := (threads rt ! i)\<lparr>thr_full_response := full_response'\<rparr>]\<rparr>
         | Return r \<Rightarrow> rt\<lparr>threads := remove_nth i (threads rt)\<rparr>)
      else rt)"

definition thread_finish :: "nat \<Rightarrow> string \<Rightarrow> 'doc runtime \<Rightarrow> 'doc runtime" where
  "thread_finish i now rt =
     (if i < length (threads rt) then
        \<lparr>rt_app = finalize now (thr_full_response (threads rt ! i)) (rt_app rt),
         threads = remove_nth i (threads rt)\<rparr>
      else rt)"

text \<open>
  What can happen to a running application: the handlers of the user interface, one at
  a time, and the progress of the threads. \<^verbatim>\<open>handle_clear_chat\<close> empties the display
  only.
\<close>

datatype event =
  NewChat string
  | LoadChat int
  | DeleteChat int
  | ClearChat
  | TypeInput string
  | SendMessage string
  | Receive nat line
  | RequestFails nat
  | Finish nat string

definition on_app :: "('doc app \<Rightarrow> 'doc app) \<Rightarrow> 'doc runtime \<Rightarrow> 'doc runtime" where
  "on_app f rt = rt\<lparr>rt_app := f (rt_app rt)\<rparr>"

fun apply_event :: "(chat_session list \<Rightarrow> 'doc) \<Rightarrow> 'doc runtime \<Rightarrow> event \<Rightarrow> 'doc runtime" where
  "apply_event json_dump rt (NewChat now) = on_app (handle_new_chat json_dump now) rt"
| "apply_event json_dump rt (LoadChat chat_id) = on_app (load_chat chat_id) rt"
| "apply_event json_dump rt (DeleteChat chat_id) = on_app (delete_chat json_dump chat_id) rt"
| "apply_event json_dump rt ClearChat = rt"
| "apply_event json_dump rt (TypeInput s) = on_app (\<lambda>a. a\<lparr>chat_input := s\<rparr>) rt"
| "apply_event json_dump rt (SendMessage now) = handle_send_message now rt"
| "apply_event json_dump rt (Receive i l) = thread_receive i l rt"
| "apply_event json_dump rt (RequestFails i) = rt\<lparr>threads := remove_nth i (threads rt)\<rparr>"
| "apply_event json_dump rt (Finish i now) = thread_finish i now rt"

definition run_events :: "(chat_session list \<Rightarrow> 'doc) \<Rightarrow> 'doc runtime \<Rightarrow> event list \<Rightarrow> 'doc runtime" where
  "run_events json_dump rt evs = foldl (apply_event json_dump) rt evs"

text \<open>The events that make a session current.\<close>

fun activates :: "event \<Rightarrow> bool" where
  "activates (NewChat now) = True"
| "activates (LoadChat chat_id) = True"
| "activates (DeleteChat chat_id) = False"
| "activates ClearChat = False"
| "activates (TypeInput s) = False"
| "activates (SendMessage now) = False"
| "activates (Receive i l) = False"
| "activates (RequestFails i) = False"
| "activates (Finish i now) = False"

text \<open>
  The application after \<^verbatim>\<open>load_models\<close> has filled the dropdown with the given names
  and selected the first, with no session and no thread.
\<close>

definition start_runtime :: "string list \<Rightarrow> 'doc runtime" where
  "start_runtime models =
     \<lparr>rt_app = init_app\<lparr>current_model := (case models of [] \<Rightarrow> None | m # ms \<Rightarrow> Some m),
                         model_options := models\<rparr>,
      threads = []\<rparr>"

section \<open>The fragments of the protocol\<close>

text \<open>
  The two kinds of line that the claims about the stream speak of. A text fragment is
  a JSON object whose key \<^verbatim>\<open>response\<close> holds a string (the server adds further keys
  such as \<^verbatim>\<open>model\<close> and \<^verbatim>\<open>done\<close>); an error fragment is a JSON object with the key
  \<^verbatim>\<open>error\<close> and without the key \<^verbatim>\<open>response\<close>.
\<close>

fun fragment_text :: "line \<Rightarrow> string option" where
  "fragment_text (Json (JObject kvs)) =
     (case map_of kvs ''response'' of Some (JString t) \<Rightarrow> Some t | _ \<Rightarrow> None)"
| "fragment_text _ = None"

fun is_error_fragment :: "line \<Rightarrow> bool" where
  "is_error_fragment (Json (JObject kvs)) =
     (''error'' \<in> set (map fst kvs) \<and> ''response'' \<notin> set (map fst kvs))"
| "is_error_fragment _ = False"

section \<open>The session store as the specification words it\<close>

text \<open>
  \<open>appendMessage_spec\<close> follows the specification, not the code: the operation takes the
  id of the session, fails with \<open>SessionNotFound\<close> when no session has it, and appends
  to the message sequence of the session otherwise.
\<close>

datatype store_error = SessionNotFound

definition appendMessage_spec ::
  "int \<Rightarrow> message \<Rightarrow> chat_session list \<Rightarrow> store_error + chat_session list" where
  "appendMessage_spec session_id m ss =
     (if \<not> (\<exists>s \<in> set ss. sess_id s = session_id) then Inl SessionNotFound
      else Inr (map (\<lambda>s. if sess_id s = session_id then s\<lparr>messages := messages s @ [m]\<rparr> else s) ss))"

section \<open>Concrete states\<close>

text \<open>
  A store with one empty session that is current, in an application whose dropdown
  offers two models; the history file holds the same store. Here the codec is the
  identity: a document is the list of sessions itself.
\<close>

definition chat1 :: chat_session where
  "chat1 = \<lparr>sess_id = 1, sess_name = ''Chat 1'', messages = [],
            created_at = ''2025-01-01T10:00:00''\<rparr>"

definition app1 :: "(chat_session list) app" where
  "app1 = \<lparr>chat_sessions = [chat1], current_chat_id = Some 1, current_model = Some ''llama3'',
            model_options = [''llama3'', ''mistral''], chat_input = ''hi'',
            files = [history_path \<mapsto> [chat1]]\<rparr>"

text \<open>The stream \<^verbatim>\<open>{"response":"He"}\<close>, \<^verbatim>\<open>{"response":"llo"}\<close>.\<close>

definition hello_lines :: "line list" where
  "hello_lines = [Json (JObject [(''response'', JString ''He'')]),
                  Json (JObject [(''response'', JString ''llo'')])]"

text \<open>The stream \<^verbatim>\<open>{"response":"Hm"}\<close>, \<^verbatim>\<open>{"error":"model crashed"}\<close>.\<close>

definition crash_chunk :: json where
  "crash_chunk = JObject [(''error'', JString ''model crashed'')]"

definition crash_lines :: "line list" where
  "crash_lines = [Json (JObject [(''response'', JString ''Hm'')]), Json crash_chunk]"

text \<open>
  The application with no thread; then the user has sent \<^verbatim>\<open>hi\<close>, the thread of this
  request has read the chunk \<^verbatim>\<open>{"response":"He"}\<close>, and the user has typed \<^verbatim>\<open>again\<close>.
\<close>

definition idle_rt :: "(chat_session list) runtime" where
  "idle_rt = \<lparr>rt_app = app1, threads = []\<rparr>"

definition streaming_rt :: "(chat_session list) runtime" where
  "streaming_rt =
     run_events (\<lambda>ss. ss) idle_rt
       [SendMessage ''t1'', Receive 0 (Json (JObject [(''response'', JString ''He'')])),
        TypeInput ''again'']"

text \<open>
  Two chats are created in the empty application, the first is deleted, and a third is
  created: the store then holds two sessions with the id 2.
\<close>

definition twice_two :: "(chat_session list) app" where
  "twice_two =
     handle_new_chat (\<lambda>ss. ss) ''t3''
       (delete_chat (\<lambda>ss. ss) 1
          (handle_new_chat (\<lambda>ss. ss) ''t2'' (handle_new_chat (\<lambda>ss. ss) ''t1'' init_app)))"

section \<open>Session creation and deletion\<close>

lemma chat_sessions_save [simp]:
  "chat_sessions (save_chat_history json_dump a) = chat_sessions a"
  by (simp add: save_chat_history_def)

lemma current_chat_id_save [simp]:
  "current_chat_id (save_chat_history json_dump a) = current_chat_id a"
  by (simp add: save_chat_history_def)

lemma chat_sessions_new_chat:
  "chat_sessions (handle_new_chat json_dump now a) =
     chat_sessions a @ [\<lparr>sess_id = int (length (chat_sessions a)) + 1,
                          sess_name = ''Chat '' @ str_int (int (length (chat_sessions a)) + 1),
                          messages = [], created_at = now\<rparr>]"
  by (simp add: handle_new_chat_def Let_def)


lemma chat_sessions_delete_chat:
  "chat_sessions (delete_chat json_dump chat_id a) =
     filter (\<lambda>s. sess_id s \<noteq> chat_id) (chat_sessions a)"
  by (simp add: delete_chat_def Let_def)

lemma current_chat_id_delete_chat:
  "current_chat_id (delete_chat json_dump chat_id a) =
     (if current_chat_id a = Some chat_id then None else current_chat_id a)"
  by (simp add: delete_chat_def Let_def)

section \<open>Appending to the current session\<close>

lemma append_to_first_split:
  assumes "\<forall>x \<in> set pre. Some (sess_id x) \<noteq> cid" "Some (sess_id s) = cid"
  shows "append_to_first cid m (pre @ s # post) = pre @ s\<lparr>messages := messages s @ [m]\<rparr> # post"
  using assms by (induction pre) auto

lemma append_to_first_absent:
  "\<forall>x \<in> set ss. Some (sess_id x) \<noteq> cid \<Longrightarrow> append_to_first cid m ss = ss"
  by (induction ss) auto

section \<open>Accumulation of text fragments\<close>

lemma fragment_textD:
  assumes "fragment_text l = Some t"
  obtains kvs where "l = Json (JObject kvs)" "map_of kvs ''response'' = Some (JString t)"
  using assms
  by (cases l rule: fragment_text.cases) (auto split: option.splits json.splits)

lemma process_line_text:
  assumes "fragment_text l = Some t"
  shows "process_line l fr = Continue (fr @ map (\<lambda>c. JString [c]) t)"
proof -
  from assms obtain kvs where l: "l = Json (JObject kvs)"
    and m: "map_of kvs ''response'' = Some (JString t)"
    by (rule fragment_textD)
  from m have "(''response'', JString t) \<in> set kvs" by (rule map_of_SomeD)
  then have "''response'' \<in> fst ` set kvs" by force
  with l m show ?thesis by simp
qed

lemma process_line_copy_text:
  assumes "fragment_text l = Some t"
  shows "process_line_copy l acc = Continue (acc @ t)"
proof -
  from assms obtain kvs where l: "l = Json (JObject kvs)"
    and m: "map_of kvs ''response'' = Some (JString t)"
    by (rule fragment_textD)
  from m have "(''response'', JString t) \<in> set kvs" by (rule map_of_SomeD)
  then have "''response'' \<in> fst ` set kvs" by force
  with l m show ?thesis by simp
qed

lemma iter_lines_text:
  "\<forall>l \<in> set ls. fragment_text l \<noteq> None \<Longrightarrow>
   iter_lines ls fr =
     Exhausted (fr @ concat (map (\<lambda>l. map (\<lambda>c. JString [c]) (the (fragment_text l))) ls))"
proof (induction ls arbitrary: fr)
  case Nil
  then show ?case by simp
next
  case (Cons l ls)
  then obtain t where t: "fragment_text l = Some t" by auto
  from Cons.prems have rest: "\<forall>l \<in> set ls. fragment_text l \<noteq> None" by simp
  show ?case
    by (simp add: process_line_text [OF t] t Cons.IH [OF rest])
qed

lemma iter_lines_copy_text:
  "\<forall>l \<in> set ls. fragment_text l \<noteq> None \<Longrightarrow>
   iter_lines_copy ls acc = Exhausted (acc @ concat (map (\<lambda>l. the (fragment_text l)) ls))"
proof (induction ls arbitrary: acc)
  case Nil
  then show ?case by simp
next
  case (Cons l ls)
  then obtain t where t: "fragment_text l = Some t" by auto
  from Cons.prems have rest: "\<forall>l \<in> set ls. fragment_text l \<noteq> None" by simp
  show ?case
    by (simp add: process_line_copy_text [OF t] t Cons.IH [OF rest])
qed

lemma py_join_append:
  "py_join xs = Inr s \<Longrightarrow> py_join ys = Inr t \<Longrightarrow> py_join (xs @ ys) = Inr (s @ t)"
  by (induction xs arbitrary: s rule: py_join.induct) (auto split: sum.splits)

lemma py_join_chars: "py_join (map (\<lambda>c. JString [c]) t) = Inr t"
  by (induction t) auto

lemma py_join_concat_chars:
  "py_join (concat (map (\<lambda>t. map (\<lambda>c. JString [c]) t) ts)) = Inr (concat ts)"
  by (induction ts) (auto simp: py_join_append py_join_chars)


lemma py_join_fragments:
  "py_join (concat (map (\<lambda>l. map (\<lambda>c. JString [c]) (the (fragment_text l))) ls)) =
     Inr (concat (map (\<lambda>l. the (fragment_text l)) ls))"
  using py_join_concat_chars [of "map (\<lambda>l. the (fragment_text l)) ls"]
  by (simp add: comp_def)

text \<open>
  Claim C1. When every line of the response is a text fragment, the message that the end
  of the stream adds to the current session is from the sender \<^verbatim>\<open>ai\<close> and its text is
  the concatenation of the texts of the fragments in the order of arrival. This holds for
  \<^verbatim>\<open>Local-AI-Chat.py\<close>, which collects characters and joins them, and for the copy,
  which appends strings. The current session is the first of the store with the current id.
\<close>

theorem committed_message_is_concatenation:
  assumes frags: "\<forall>l \<in> set ls. fragment_text l \<noteq> None"
    and model: "current_model a = Some m" "m \<noteq> []"
    and store: "chat_sessions a = pre @ s # post"
    and first: "\<forall>x \<in> set pre. Some (sess_id x) \<noteq> current_chat_id a"
    and active: "Some (sess_id s) = current_chat_id a"
  shows "chat_sessions (snd (process_ai_response now (Response 200 ls) a)) =
           pre @ s\<lparr>messages := messages s @
                     [\<lparr>sender = ''ai'', msg_text = concat (map (\<lambda>l. the (fragment_text l)) ls),
                       timestamp = now\<rparr>]\<rparr> # post
       \<and> chat_sessions (snd (process_ai_response_copy now (Response 200 ls) a)) =
           pre @ s\<lparr>messages := messages s @
                     [\<lparr>sender = ''ai'', msg_text = concat (map (\<lambda>l. the (fragment_text l)) ls),
                       timestamp = now\<rparr>]\<rparr> # post"
proof -
  let ?txt = "concat (map (\<lambda>l. the (fragment_text l)) ls)"
  let ?m = "\<lparr>sender = ''ai'', msg_text = ?txt, timestamp = now\<rparr>"
  have commit: "chat_sessions (add_message_to_session ''ai'' ?txt now a) =
      pre @ s\<lparr>messages := messages s @ [?m]\<rparr> # post"
    using append_to_first_split [OF first active, of ?m post]
    by (simp add: add_message_to_session_def store)
  have main: "process (current_model a) (Response 200 ls) =
      Stream (Exhausted (concat (map (\<lambda>l. map (\<lambda>c. JString [c]) (the (fragment_text l))) ls)))"
    using model by (simp add: process_def iter_lines_text [OF frags])
  have copy: "process_copy (current_model a) (Response 200 ls) = Stream (Exhausted ?txt)"
    using model by (simp add: process_copy_def iter_lines_copy_text [OF frags])
  have "snd (process_ai_response now (Response 200 ls) a) = add_message_to_session ''ai'' ?txt now a"
    by (simp add: process_ai_response_def main finalize_def py_join_fragments)
  moreover have "snd (process_ai_response_copy now (Response 200 ls) a) =
      add_message_to_session ''ai'' ?txt now a"
    by (simp add: process_ai_response_copy_def copy)
  ultimately show ?thesis by (simp add: commit)
qed

theorem committed_message_is_concatenation_witness:
  "chat_sessions (snd (process_ai_response ''t1'' (Response 200 hello_lines) app1)) =
     [chat1\<lparr>messages := [\<lparr>sender = ''ai'', msg_text = ''Hello'', timestamp = ''t1''\<rparr>]\<rparr>]
   \<and> chat_sessions (snd (process_ai_response_copy ''t1'' (Response 200 hello_lines) app1)) =
     [chat1\<lparr>messages := [\<lparr>sender = ''ai'', msg_text = ''Hello'', timestamp = ''t1''\<rparr>]\<rparr>]"
  using committed_message_is_concatenation [of hello_lines app1 "''llama3''" "[]" chat1 "[]" "''t1''"]
  by (simp add: hello_lines_def app1_def chat1_def)

section \<open>Error fragments\<close>

lemma process_line_error:
  "is_error_fragment (Json c) \<Longrightarrow> process_line (Json c) fr = Return (AIError c)"
  by (cases c) auto

lemma process_line_copy_error:
  "is_error_fragment (Json c) \<Longrightarrow> process_line_copy (Json c) acc = Return (AIError c)"
  by (cases c) auto

lemma iter_lines_stopped:
  "is_error_fragment (Json c) \<Longrightarrow> \<exists>r. iter_lines (pre @ Json c # post) fr = Stopped r"
proof (induction pre arbitrary: fr)
  case Nil
  then show ?case by (simp add: process_line_error del: process_line.simps)
next
  case (Cons l pre)
  show ?case
  proof (cases "process_line l fr")
    case (Continue fr')
    with Cons.IH [OF Cons.prems, of fr'] show ?thesis by simp
  next
    case (Return r)
    then show ?thesis by simp
  qed
qed

lemma iter_lines_cut:
  "is_error_fragment (Json c) \<Longrightarrow>
     iter_lines (pre @ Json c # post) fr = iter_lines (pre @ [Json c]) fr"
proof (induction pre arbitrary: fr)
  case Nil
  then show ?case by (simp add: process_line_error del: process_line.simps)
next
  case (Cons l pre)
  show ?case
  proof (cases "process_line l fr")
    case (Continue fr')
    with Cons.IH [OF Cons.prems, of fr'] show ?thesis by simp
  next
    case (Return r)
    then show ?thesis by simp
  qed
qed

lemma iter_lines_copy_stopped:
  "is_error_fragment (Json c) \<Longrightarrow> \<exists>r. iter_lines_copy (pre @ Json c # post) acc = Stopped r"
proof (induction pre arbitrary: acc)
  case Nil
  then show ?case by (simp add: process_line_copy_error del: process_line_copy.simps)
next
  case (Cons l pre)
  show ?case
  proof (cases "process_line_copy l acc")
    case (Continue acc')
    with Cons.IH [OF Cons.prems, of acc'] show ?thesis by simp
  next
    case (Return r)
    then show ?thesis by simp
  qed
qed

lemma iter_lines_copy_cut:
  "is_error_fragment (Json c) \<Longrightarrow>
     iter_lines_copy (pre @ Json c # post) acc = iter_lines_copy (pre @ [Json c]) acc"
proof (induction pre arbitrary: acc)
  case Nil
  then show ?case by (simp add: process_line_copy_error del: process_line_copy.simps)
next
  case (Cons l pre)
  show ?case
  proof (cases "process_line_copy l acc")
    case (Continue acc')
    with Cons.IH [OF Cons.prems, of acc'] show ?thesis by simp
  next
    case (Return r)
    then show ?thesis by simp
  qed
qed

lemma iter_lines_first_error:
  "is_error_fragment (Json c) \<Longrightarrow> \<forall>l \<in> set pre. fragment_text l \<noteq> None \<Longrightarrow>
     iter_lines (pre @ Json c # post) fr = Stopped (AIError c)"
proof (induction pre arbitrary: fr)
  case Nil
  then show ?case by (simp add: process_line_error del: process_line.simps)
next
  case (Cons l pre)
  then obtain t where t: "fragment_text l = Some t" by auto
  from Cons.prems have rest: "\<forall>l \<in> set pre. fragment_text l \<noteq> None" by simp
  show ?case
    by (simp add: process_line_text [OF t] Cons.IH [OF Cons.prems(1) rest])
qed

lemma iter_lines_copy_first_error:
  "is_error_fragment (Json c) \<Longrightarrow> \<forall>l \<in> set pre. fragment_text l \<noteq> None \<Longrightarrow>
     iter_lines_copy (pre @ Json c # post) acc = Stopped (AIError c)"
proof (induction pre arbitrary: acc)
  case Nil
  then show ?case by (simp add: process_line_copy_error del: process_line_copy.simps)
next
  case (Cons l pre)
  then obtain t where t: "fragment_text l = Some t" by auto
  from Cons.prems have rest: "\<forall>l \<in> set pre. fragment_text l \<noteq> None" by simp
  show ?case
    by (simp add: process_line_copy_text [OF t] Cons.IH [OF Cons.prems(1) rest])
qed

lemma process_not_exhausted:
  assumes "iter_lines ls [] = Stopped r"
  shows "process_ai_response now (Response sc ls) a = (process (current_model a) (Response sc ls), a)"
  using assms by (simp add: process_ai_response_def process_def Let_def)

lemma process_copy_not_exhausted:
  assumes "iter_lines_copy ls [] = Stopped r"
  shows "process_ai_response_copy now (Response sc ls) a = (process_copy (current_model a) (Response sc ls), a)"
  using assms by (simp add: process_ai_response_copy_def process_copy_def Let_def)

text \<open>
  Claim C2. When a line of the response is an error fragment, the loop never reaches its
  end: it returns at that line or before (what follows the line is not read), it returns
  with a failure that \<^verbatim>\<open>show_error\<close> displays, and the application state after the
  request is the state before it, so no message is added to any session. When the lines
  before the error fragment are text fragments, the failure is the \<^verbatim>\<open>AI Error\<close> of
  that fragment. Both versions of the loop behave so.
\<close>

theorem error_fragment_stops_without_commit:
  assumes err: "is_error_fragment (Json c)"
  shows "snd (process_ai_response now (Response sc (pre @ Json c # post)) a) = a
       \<and> snd (process_ai_response_copy now (Response sc (pre @ Json c # post)) a) = a
       \<and> iter_lines (pre @ Json c # post) [] = iter_lines (pre @ [Json c]) []
       \<and> iter_lines_copy (pre @ Json c # post) [] = iter_lines_copy (pre @ [Json c]) []
       \<and> (\<exists>r. iter_lines (pre @ Json c # post) [] = Stopped r)
       \<and> (\<exists>r. iter_lines_copy (pre @ Json c # post) [] = Stopped r)
       \<and> ((\<forall>l \<in> set pre. fragment_text l \<noteq> None) \<longrightarrow>
            iter_lines (pre @ Json c # post) [] = Stopped (AIError c)
          \<and> iter_lines_copy (pre @ Json c # post) [] = Stopped (AIError c))"
proof -
  obtain r where r: "iter_lines (pre @ Json c # post) [] = Stopped r"
    using iter_lines_stopped [OF err] by blast
  obtain r' where r': "iter_lines_copy (pre @ Json c # post) [] = Stopped r'"
    using iter_lines_copy_stopped [OF err] by blast
  have 1: "snd (process_ai_response now (Response sc (pre @ Json c # post)) a) = a"
    by (simp add: process_not_exhausted [OF r])
  have 2: "snd (process_ai_response_copy now (Response sc (pre @ Json c # post)) a) = a"
    by (simp add: process_copy_not_exhausted [OF r'])
  have 3: "iter_lines (pre @ Json c # post) [] = iter_lines (pre @ [Json c]) []"
    by (rule iter_lines_cut [OF err])
  have 4: "iter_lines_copy (pre @ Json c # post) [] = iter_lines_copy (pre @ [Json c]) []"
    by (rule iter_lines_copy_cut [OF err])
  have 5: "(\<forall>l \<in> set pre. fragment_text l \<noteq> None) \<longrightarrow>
            iter_lines (pre @ Json c # post) [] = Stopped (AIError c)
          \<and> iter_lines_copy (pre @ Json c # post) [] = Stopped (AIError c)"
    using iter_lines_first_error [OF err] iter_lines_copy_first_error [OF err] by blast
  from r r' 1 2 3 4 5 show ?thesis by blast
qed

theorem error_fragment_stops_without_commit_witness:
  "is_error_fragment (Json crash_chunk)
   \<and> process_ai_response ''t1'' (Response 200 crash_lines) app1 = (Stream (Stopped (AIError crash_chunk)), app1)
   \<and> process_ai_response_copy ''t1'' (Response 200 crash_lines) app1 = (Stream (Stopped (AIError crash_chunk)), app1)"
proof -
  have e: "is_error_fragment (Json crash_chunk)"
    by (simp add: crash_chunk_def)
  have p: "\<forall>l \<in> set [Json (JObject [(''response'', JString ''Hm'')])]. fragment_text l \<noteq> None"
    by simp
  from error_fragment_stops_without_commit [OF e, of "''t1''" 200 "[Json (JObject [(''response'', JString ''Hm'')])]" "[]" app1] p
  have "iter_lines crash_lines [] = Stopped (AIError crash_chunk)"
    and "iter_lines_copy crash_lines [] = Stopped (AIError crash_chunk)"
    by (simp_all add: crash_lines_def)
  then show ?thesis
    using e by (simp add: process_ai_response_def process_ai_response_copy_def process_def
        process_copy_def app1_def)
qed

section \<open>Lines that are not JSON\<close>

text \<open>The copy skips a line that is not JSON, wherever it stands in the response.\<close>

lemma iter_lines_copy_skips_bad_json:
  "iter_lines_copy (pre @ BadJson # post) acc = iter_lines_copy (pre @ post) acc"
proof (induction pre arbitrary: acc)
  case Nil
  show ?case by simp
next
  case (Cons l pre)
  show ?case
  proof (cases "process_line_copy l acc")
    case (Continue acc')
    with Cons.IH [of acc'] show ?thesis by simp
  next
    case (Return r)
    then show ?thesis by simp
  qed
qed

text \<open>
  Claim C3. A line that is not valid JSON is to be skipped, and the fragments after it
  are to be accumulated. On the response whose first line is not JSON and whose next lines
  are \<^verbatim>\<open>{"response":"He"}\<close> and \<^verbatim>\<open>{"response":"llo"}\<close>, \<^verbatim>\<open>Local-AI-Chat.py\<close> ends
  with a processing error and leaves the store as it was, while the copy adds the
  message \<^verbatim>\<open>Hello\<close>.
\<close>

theorem malformed_line_ends_stream:
  "process_ai_response ''t1'' (Response 200 (BadJson # hello_lines)) app1 =
     (Stream (Stopped (ProcessingError JSONDecodeError)), app1)
   \<and> chat_sessions (snd (process_ai_response_copy ''t1'' (Response 200 (BadJson # hello_lines)) app1)) =
     [chat1\<lparr>messages := [\<lparr>sender = ''ai'', msg_text = ''Hello'', timestamp = ''t1''\<rparr>]\<rparr>]"
  by (simp add: process_ai_response_def process_ai_response_copy_def process_def process_copy_def
      app1_def hello_lines_def chat1_def add_message_to_session_def)

section \<open>A second send while a response is streamed\<close>

lemma streaming_rt_eq:
  "streaming_rt =
     \<lparr>rt_app = app1\<lparr>chat_sessions :=
                  [chat1\<lparr>messages := [\<lparr>sender = ''user'', msg_text = ''hi'', timestamp = ''t1''\<rparr>]\<rparr>],
                chat_input := ''again''\<rparr>,
      threads = [\<lparr>thr_prompt = ''hi'', thr_full_response = [JString ''H'', JString ''e'']\<rparr>]\<rparr>"
  by (simp add: streaming_rt_def idle_rt_def run_events_def handle_send_message_def
      validate_send_conditions_def strip_def is_space_def app1_def chat1_def
      add_message_to_session_def thread_receive_def on_app_def Let_def)

text \<open>
  Claim C4, as stated, fails. In \<open>streaming_rt\<close> the only session is current and the
  thread of its request has accumulated \<^verbatim>\<open>He\<close>; a second send is accepted and starts
  a second thread beside the first.
\<close>

theorem second_send_starts_second_stream:
  "threads streaming_rt = [\<lparr>thr_prompt = ''hi'', thr_full_response = [JString ''H'', JString ''e'']\<rparr>]
   \<and> threads (handle_send_message ''t2'' streaming_rt) =
       [\<lparr>thr_prompt = ''hi'', thr_full_response = [JString ''H'', JString ''e'']\<rparr>,
        \<lparr>thr_prompt = ''again'', thr_full_response = []\<rparr>]"
  by (simp add: streaming_rt_eq handle_send_message_def validate_send_conditions_def strip_def
      is_space_def app1_def Let_def)

text \<open>
  Claim C4, amended. A send is rejected exactly when \<^verbatim>\<open>validate_send_conditions\<close> fails
  (no model selected, the model not among the options, or a blank input), and then
  nothing changes; the validation does not depend on the threads that are running. An
  accepted send starts one more thread with an empty accumulation of its own. In both
  cases the threads that were running, and what they have accumulated, stay as they were.
\<close>

theorem send_is_gated_by_validation_only:
  "(validate_send_conditions (rt_app rt) \<longrightarrow>
      threads (handle_send_message now rt) =
        threads rt @ [\<lparr>thr_prompt = strip (chat_input (rt_app rt)), thr_full_response = []\<rparr>])
   \<and> (\<not> validate_send_conditions (rt_app rt) \<longrightarrow> handle_send_message now rt = rt)
   \<and> validate_send_conditions (rt_app (rt\<lparr>threads := ts\<rparr>)) = validate_send_conditions (rt_app rt)
   \<and> prefix (threads rt) (threads (handle_send_message now rt))"
  by (simp add: handle_send_message_def Let_def)

theorem send_is_gated_by_validation_only_witness:
  "validate_send_conditions (rt_app streaming_rt)
   \<and> threads (handle_send_message ''t2'' streaming_rt) =
       threads streaming_rt @ [\<lparr>thr_prompt = ''again'', thr_full_response = []\<rparr>]
   \<and> \<not> validate_send_conditions (rt_app idle_rt\<lparr>chat_input := ''  ''\<rparr>)
   \<and> handle_send_message ''t2'' (idle_rt\<lparr>rt_app := (rt_app idle_rt)\<lparr>chat_input := ''  ''\<rparr>\<rparr>) =
       idle_rt\<lparr>rt_app := (rt_app idle_rt)\<lparr>chat_input := ''  ''\<rparr>\<rparr>"
proof -
  have v: "validate_send_conditions (rt_app streaming_rt)"
    by (simp add: streaming_rt_eq validate_send_conditions_def strip_def is_space_def app1_def)
  have s: "strip (chat_input (rt_app streaming_rt)) = ''again''"
    by (simp add: streaming_rt_eq strip_def is_space_def)
  have n: "\<not> validate_send_conditions (rt_app (idle_rt\<lparr>rt_app := (rt_app idle_rt)\<lparr>chat_input := ''  ''\<rparr>\<rparr>))"
    by (simp add: idle_rt_def validate_send_conditions_def strip_def is_space_def app1_def)
  from send_is_gated_by_validation_only [of streaming_rt "''t2''" "[]"] v s
  have 1: "threads (handle_send_message ''t2'' streaming_rt) =
       threads streaming_rt @ [\<lparr>thr_prompt = ''again'', thr_full_response = []\<rparr>]"
    by simp
  from send_is_gated_by_validation_only [of "idle_rt\<lparr>rt_app := (rt_app idle_rt)\<lparr>chat_input := ''  ''\<rparr>\<rparr>" "''t2''" "[]"] n
  have 2: "handle_send_message ''t2'' (idle_rt\<lparr>rt_app := (rt_app idle_rt)\<lparr>chat_input := ''  ''\<rparr>\<rparr>) =
       idle_rt\<lparr>rt_app := (rt_app idle_rt)\<lparr>chat_input := ''  ''\<rparr>\<rparr>"
    by blast
  from v n 1 2 show ?thesis by simp
qed

section \<open>Deleting the current session while a response is streamed\<close>

lemma append_to_first_None: "append_to_first None m ss = ss"
  by (induction ss) auto

lemma add_message_no_current:
  "current_chat_id a = None \<Longrightarrow> add_message_to_session sndr t now a = a"
  by (simp add: add_message_to_session_def append_to_first_None)

lemma current_chat_id_add_message [simp]:
  "current_chat_id (add_message_to_session sndr t now a) = current_chat_id a"
  by (simp add: add_message_to_session_def)

lemma finalize_no_current:
  "current_chat_id a = None \<Longrightarrow> finalize now fr a = a"
  by (simp add: finalize_def add_message_no_current split: sum.splits)

lemma current_chat_id_finalize [simp]:
  "current_chat_id (finalize now fr a) = current_chat_id a"
  by (simp add: finalize_def split: sum.splits)

lemma rt_app_thread_receive [simp]: "rt_app (thread_receive i l rt) = rt_app rt"
  by (simp add: thread_receive_def split: step.splits)

lemma current_chat_id_send [simp]:
  "current_chat_id (rt_app (handle_send_message now rt)) = current_chat_id (rt_app rt)"
  by (simp add: handle_send_message_def Let_def)

lemma current_chat_id_thread_finish [simp]:
  "current_chat_id (rt_app (thread_finish i now rt)) = current_chat_id (rt_app rt)"
  by (simp add: thread_finish_def)

lemma no_current_kept:
  assumes "current_chat_id (rt_app rt) = None" "\<not> activates ev"
  shows "current_chat_id (rt_app (apply_event d rt ev)) = None"
  using assms
  by (cases ev) (simp_all add: on_app_def current_chat_id_delete_chat)

lemma no_current_run:
  assumes "current_chat_id (rt_app rt) = None" "\<forall>ev \<in> set evs. \<not> activates ev"
  shows "current_chat_id (rt_app (run_events d rt evs)) = None"
  using assms unfolding run_events_def
proof (induction evs arbitrary: rt)
  case Nil
  then show ?case by simp
next
  case (Cons ev evs)
  from Cons.prems have "current_chat_id (rt_app (apply_event d rt ev)) = None"
    by (simp add: no_current_kept)
  with Cons show ?case by simp
qed

lemma thread_finish_no_current:
  "current_chat_id (rt_app rt) = None \<Longrightarrow>
     chat_sessions (rt_app (thread_finish i now rt)) = chat_sessions (rt_app rt)"
  by (simp add: thread_finish_def finalize_no_current)

lemma str_int_1: "str_int 1 = ''1''"
  by code_simp

lemma str_int_2: "str_int 2 = ''2''"
  by code_simp

text \<open>
  Claim C6, as stated, fails. The current session is deleted while the thread of its
  request is running; the user then creates a chat, which gets the id 1 again and becomes
  current; when the thread finishes, its text is added to the new session.
\<close>

theorem late_completion_reaches_new_session:
  "chat_sessions (rt_app (run_events (\<lambda>ss. ss) streaming_rt [DeleteChat 1])) = []
   \<and> chat_sessions (rt_app (run_events (\<lambda>ss. ss) streaming_rt [DeleteChat 1, NewChat ''t3''])) =
       [\<lparr>sess_id = 1, sess_name = ''Chat 1'', messages = [], created_at = ''t3''\<rparr>]
   \<and> chat_sessions (rt_app (run_events (\<lambda>ss. ss) streaming_rt
         [DeleteChat 1, NewChat ''t3'', Finish 0 ''t4''])) =
       [\<lparr>sess_id = 1, sess_name = ''Chat 1'',
         messages = [\<lparr>sender = ''ai'', msg_text = ''He'', timestamp = ''t4''\<rparr>],
         created_at = ''t3''\<rparr>]"
  by (simp add: streaming_rt_eq run_events_def on_app_def delete_chat_def handle_new_chat_def
      save_chat_history_def thread_finish_def finalize_def add_message_to_session_def
      app1_def chat1_def str_int_1 Let_def)

text \<open>
  Claim C6, amended. When the current session is deleted while a response is streamed,
  and no chat is created or selected before the response ends, the end of the response
  adds no message to any session of the store: the store after it is the store before
  it. Other deletions, sends, typing and the progress of the threads may come in between.
\<close>

theorem completion_after_deletion_appends_nothing:
  assumes "current_chat_id (rt_app rt) = Some cid"
    and "\<forall>ev \<in> set evs. \<not> activates ev"
  shows "chat_sessions (rt_app (thread_finish i now
            (run_events d (apply_event d rt (DeleteChat cid)) evs))) =
         chat_sessions (rt_app (run_events d (apply_event d rt (DeleteChat cid)) evs))"
proof -
  have "current_chat_id (rt_app (apply_event d rt (DeleteChat cid))) = None"
    using assms(1) by (simp add: on_app_def current_chat_id_delete_chat)
  then have "current_chat_id (rt_app (run_events d (apply_event d rt (DeleteChat cid)) evs)) = None"
    using assms(2) by (rule no_current_run)
  then show ?thesis by (rule thread_finish_no_current)
qed

theorem completion_after_deletion_appends_nothing_witness:
  "current_chat_id (rt_app streaming_rt) = Some 1
   \<and> chat_sessions (rt_app (thread_finish 0 ''t4''
        (run_events (\<lambda>ss. ss) (apply_event (\<lambda>ss. ss) streaming_rt (DeleteChat 1))
           [ClearChat, SendMessage ''t3'']))) = []"
proof -
  have c: "current_chat_id (rt_app streaming_rt) = Some 1"
    by (simp add: streaming_rt_eq app1_def)
  have q: "\<forall>ev \<in> set [ClearChat, SendMessage ''t3'']. \<not> activates ev"
    by simp
  have e: "chat_sessions (rt_app (run_events (\<lambda>ss. ss) (apply_event (\<lambda>ss. ss) streaming_rt (DeleteChat 1))
           [ClearChat, SendMessage ''t3''])) = []"
    by (simp add: streaming_rt_eq run_events_def on_app_def delete_chat_def
        save_chat_history_def handle_send_message_def validate_send_conditions_def strip_def
        is_space_def add_message_to_session_def app1_def chat1_def Let_def)
  from completion_after_deletion_appends_nothing [OF c q, of 0 "''t4''" "\<lambda>ss. ss"] e c
  show ?thesis by simp
qed

section \<open>Identifiers of new sessions, deletion\<close>



text \<open>
  Claim C10. \<^verbatim>\<open>delete_chat\<close> keeps exactly the sessions whose id differs from the
  argument, in their order: no session with the id remains, however many had it, every
  other session remains, and the new store is a subsequence of the old one.
\<close>

theorem delete_chat_removes_every_match:
  "chat_sessions (delete_chat json_dump chat_id a) =
     filter (\<lambda>s. sess_id s \<noteq> chat_id) (chat_sessions a)
   \<and> (\<forall>s \<in> set (chat_sessions (delete_chat json_dump chat_id a)). sess_id s \<noteq> chat_id)
   \<and> (\<forall>s \<in> set (chat_sessions a).
         sess_id s \<noteq> chat_id \<longrightarrow> s \<in> set (chat_sessions (delete_chat json_dump chat_id a)))
   \<and> subseq (chat_sessions (delete_chat json_dump chat_id a)) (chat_sessions a)"
  by (simp add: chat_sessions_delete_chat)

theorem delete_chat_removes_every_match_witness:
  "map sess_id (chat_sessions twice_two) = [2, 2]
   \<and> chat_sessions (delete_chat (\<lambda>ss. ss) 2 twice_two) = []
   \<and> map sess_id (chat_sessions (delete_chat (\<lambda>ss. ss) 1
        (app1\<lparr>chat_sessions := chat_sessions twice_two @ [chat1] @ chat_sessions twice_two\<rparr>))) = [2, 2, 2, 2]"
proof -
  have t: "map sess_id (chat_sessions twice_two) = [2, 2]"
    by (simp add: twice_two_def chat_sessions_new_chat chat_sessions_delete_chat init_app_def)
  then have n: "\<forall>s \<in> set (chat_sessions twice_two). sess_id s = 2"
    by auto
  from delete_chat_removes_every_match [of "\<lambda>ss. ss" 2 twice_two] n
  have 1: "chat_sessions (delete_chat (\<lambda>ss. ss) 2 twice_two) = []"
    by (simp add: filter_empty_conv)
  from delete_chat_removes_every_match [of "\<lambda>ss. ss" 1
      "app1\<lparr>chat_sessions := chat_sessions twice_two @ [chat1] @ chat_sessions twice_two\<rparr>"] n t
  have 2: "map sess_id (chat_sessions (delete_chat (\<lambda>ss. ss) 1
        (app1\<lparr>chat_sessions := chat_sessions twice_two @ [chat1] @ chat_sessions twice_two\<rparr>))) = [2, 2, 2, 2]"
    by (simp add: chat1_def)
  from t 1 2 show ?thesis by simp
qed

section \<open>Saving and loading the history\<close>




section \<open>Appending a message\<close>

text \<open>
  Claim C8, as stated, fails. After \<^verbatim>\<open>load_chat(7)\<close> no session has the current id 7.
  The operation of the specification fails with \<open>SessionNotFound\<close> there;
  \<^verbatim>\<open>add_message_to_session\<close> returns as usual and leaves the application as it was.
\<close>

theorem append_to_missing_session_is_silent:
  "appendMessage_spec 7 \<lparr>sender = ''user'', msg_text = ''hi'', timestamp = ''t1''\<rparr>
     (chat_sessions (load_chat 7 app1)) = Inl SessionNotFound
   \<and> add_message_to_session ''user'' ''hi'' ''t1'' (load_chat 7 app1) = load_chat 7 app1"
  by (simp add: appendMessage_spec_def load_chat_def app1_def chat1_def add_message_to_session_def)

lemma append_to_first_unique:
  assumes "distinct (map sess_id ss)"
  shows "append_to_first (Some i) m ss =
     map (\<lambda>s. if sess_id s = i then s\<lparr>messages := messages s @ [m]\<rparr> else s) ss"
  using assms
proof (induction ss)
  case Nil
  then show ?case by simp
next
  case (Cons s ss)
  show ?case
  proof (cases "sess_id s = i")
    case True
    with Cons.prems have "i \<notin> sess_id ` set ss" by simp
    then have "\<forall>x \<in> set ss. sess_id x \<noteq> i" by blast
    then have "map (\<lambda>s. if sess_id s = i then s\<lparr>messages := messages s @ [m]\<rparr> else s) ss = ss"
      by (simp add: map_idI)
    with True show ?thesis by simp
  next
    case False
    with Cons show ?thesis by simp
  qed
qed

text \<open>
  Claim C8, amended. \<^verbatim>\<open>add_message_to_session\<close> takes no session id: it works on the
  current one. When no session has the current id it does nothing and does not fail.
  When one has, the message is put at the end of the messages of the first such session;
  the messages before it keep their order and the other sessions stay as they are. With
  distinct ids in the store this is the result that the specification describes.
\<close>

theorem add_message_appends_to_current_session:
  "((\<forall>x \<in> set (chat_sessions a). Some (sess_id x) \<noteq> current_chat_id a) \<longrightarrow>
      add_message_to_session sndr t now a = a)
   \<and> (chat_sessions a = pre @ s # post \<and> (\<forall>x \<in> set pre. Some (sess_id x) \<noteq> current_chat_id a)
        \<and> Some (sess_id s) = current_chat_id a \<longrightarrow>
      add_message_to_session sndr t now a =
        a\<lparr>chat_sessions := pre @ s\<lparr>messages := messages s @
             [\<lparr>sender = sndr, msg_text = t, timestamp = now\<rparr>]\<rparr> # post\<rparr>)
   \<and> (distinct (map sess_id (chat_sessions a)) \<and> current_chat_id a = Some i
        \<and> (\<exists>x \<in> set (chat_sessions a). sess_id x = i) \<longrightarrow>
      Inr (chat_sessions (add_message_to_session sndr t now a)) =
        appendMessage_spec i \<lparr>sender = sndr, msg_text = t, timestamp = now\<rparr> (chat_sessions a))"
proof -
  have 1: "(\<forall>x \<in> set (chat_sessions a). Some (sess_id x) \<noteq> current_chat_id a) \<longrightarrow>
      add_message_to_session sndr t now a = a"
    by (simp add: add_message_to_session_def append_to_first_absent)
  have 2: "chat_sessions a = pre @ s # post \<and> (\<forall>x \<in> set pre. Some (sess_id x) \<noteq> current_chat_id a)
        \<and> Some (sess_id s) = current_chat_id a \<longrightarrow>
      add_message_to_session sndr t now a =
        a\<lparr>chat_sessions := pre @ s\<lparr>messages := messages s @
             [\<lparr>sender = sndr, msg_text = t, timestamp = now\<rparr>]\<rparr> # post\<rparr>"
    by (simp add: add_message_to_session_def append_to_first_split)
  have 3: "distinct (map sess_id (chat_sessions a)) \<and> current_chat_id a = Some i
        \<and> (\<exists>x \<in> set (chat_sessions a). sess_id x = i) \<longrightarrow>
      Inr (chat_sessions (add_message_to_session sndr t now a)) =
        appendMessage_spec i \<lparr>sender = sndr, msg_text = t, timestamp = now\<rparr> (chat_sessions a)"
    by (auto simp: add_message_to_session_def appendMessage_spec_def append_to_first_unique)
  from 1 2 3 show ?thesis by blast
qed

theorem add_message_appends_to_current_session_witness:
  "add_message_to_session ''user'' ''hi'' ''t1'' app1 =
     app1\<lparr>chat_sessions := [chat1\<lparr>messages := messages chat1 @
        [\<lparr>sender = ''user'', msg_text = ''hi'', timestamp = ''t1''\<rparr>]\<rparr>]\<rparr>
   \<and> add_message_to_session ''user'' ''hi'' ''t1'' (load_chat 7 app1) = load_chat 7 app1
   \<and> Inr (chat_sessions (add_message_to_session ''user'' ''hi'' ''t1'' app1)) =
       appendMessage_spec 1 \<lparr>sender = ''user'', msg_text = ''hi'', timestamp = ''t1''\<rparr>
         (chat_sessions app1)"
proof -
  have a: "\<forall>x \<in> set (chat_sessions (load_chat 7 app1)).
      Some (sess_id x) \<noteq> current_chat_id (load_chat 7 app1)"
    by (simp add: load_chat_def app1_def chat1_def)
  have b: "chat_sessions app1 = [] @ chat1 # [] \<and>
      (\<forall>x \<in> set []. Some (sess_id x) \<noteq> current_chat_id app1) \<and>
      Some (sess_id chat1) = current_chat_id app1"
    by (simp add: app1_def chat1_def)
  have c: "distinct (map sess_id (chat_sessions app1)) \<and> current_chat_id app1 = Some 1
        \<and> (\<exists>x \<in> set (chat_sessions app1). sess_id x = 1)"
    by (simp add: app1_def chat1_def)
  from add_message_appends_to_current_session [of "load_chat 7 app1" "''user''" "''hi''" "''t1''"] a
  have 1: "add_message_to_session ''user'' ''hi'' ''t1'' (load_chat 7 app1) = load_chat 7 app1"
    by blast
  from add_message_appends_to_current_session [of app1 "''user''" "''hi''" "''t1''" "[]" chat1 "[]" 1] b
  have 2: "add_message_to_session ''user'' ''hi'' ''t1'' app1 =
     app1\<lparr>chat_sessions := [] @ chat1\<lparr>messages := messages chat1 @
        [\<lparr>sender = ''user'', msg_text = ''hi'', timestamp = ''t1''\<rparr>]\<rparr> # []\<rparr>"
    by blast
  from add_message_appends_to_current_session [of app1 "''user''" "''hi''" "''t1''" "[]" chat1 "[]" 1] c
  have 3: "Inr (chat_sessions (add_message_to_session ''user'' ''hi'' ''t1'' app1)) =
       appendMessage_spec 1 \<lparr>sender = ''user'', msg_text = ''hi'', timestamp = ''t1''\<rparr>
         (chat_sessions app1)"
    by blast
  from 2 have "add_message_to_session ''user'' ''hi'' ''t1'' app1 =
     app1\<lparr>chat_sessions := [chat1\<lparr>messages := messages chat1 @
        [\<lparr>sender = ''user'', msg_text = ''hi'', timestamp = ''t1''\<rparr>]\<rparr>]\<rparr>"
    by simp
  with 1 3 show ?thesis by blast
qed

section \<open>When the history is written\<close>

lemma files_add_message [simp]:
  "files (add_message_to_session sndr t now a) = files a"
  by (simp add: add_message_to_session_def)

text \<open>
  Claim C9, as stated, fails for the append of a message. In \<open>app1\<close> the history file
  holds the store; after \<^verbatim>\<open>add_message_to_session\<close> the store has the new message and
  the file still holds the old store.
\<close>

theorem message_append_is_not_saved:
  "files app1 history_path = Some (chat_sessions app1)
   \<and> files (add_message_to_session ''user'' ''hi'' ''t1'' app1) history_path \<noteq>
       Some (chat_sessions (add_message_to_session ''user'' ''hi'' ''t1'' app1))"
  by (simp add: app1_def chat1_def add_message_to_session_def)

text \<open>
  Claim C9, amended. After the creation of a session and after the deletion of a session
  the history file is written anew and holds the dump of the store as it is then; no
  other file changes.
\<close>

theorem create_and_delete_rewrite_history:
  "files (handle_new_chat json_dump now a) =
     (files a)(history_path \<mapsto> json_dump (chat_sessions (handle_new_chat json_dump now a)))
   \<and> files (delete_chat json_dump chat_id a) =
     (files a)(history_path \<mapsto> json_dump (chat_sessions (delete_chat json_dump chat_id a)))"
  by (simp add: handle_new_chat_def delete_chat_def save_chat_history_def Let_def)

theorem create_and_delete_rewrite_history_witness:
  "files (handle_new_chat (\<lambda>ss. ss) ''t2'' app1) history_path =
     Some [chat1, \<lparr>sess_id = 2, sess_name = ''Chat 2'', messages = [], created_at = ''t2''\<rparr>]
   \<and> files (delete_chat (\<lambda>ss. ss) 1 app1) history_path = Some []"
  using create_and_delete_rewrite_history [of "\<lambda>ss. ss" "''t2''" app1 1]
  by (simp add: chat_sessions_new_chat chat_sessions_delete_chat app1_def chat1_def str_int_2)

end
